theory Spec2Isabelle
  imports Main "HOL-Library.Word"
begin

section \<open>Go library functions used by the two packages\<close>

text \<open>
  A Go string is a sequence of bytes; it is modelled as \<open>string\<close> (a list of 8-bit
  characters). The functions of this section are those of Go's \<open>strings\<close>, \<open>strconv\<close>
  and \<open>errors\<close> packages that \<open>pkg/util/commands.go\<close> and \<open>pkg/helm/helm_cli.go\<close>
  call.
\<close>

subsection \<open>White space\<close>

text \<open>
  \<open>strings.TrimSpace\<close> and \<open>strings.Fields\<close> use \<open>unicode.IsSpace\<close>: the six ASCII
  characters tab, line feed, vertical tab, form feed, carriage return and space, and the
  code points U+0085, U+00A0, U+1680, U+2000 to U+200A, U+2028, U+2029, U+202F, U+205F
  and U+3000, which a string holds in their UTF-8 encoding. A byte that starts one of
  these encodings is never a continuation byte, so the decoder always starts a rune at
  it, and looking for the encodings byte by byte finds what the decoder finds.
\<close>

definition asciiSpace :: "char \<Rightarrow> bool" where
  "asciiSpace c = (c = CHR 0x09 \<or> c = CHR 0x0A \<or> c = CHR 0x0B \<or> c = CHR 0x0C
                    \<or> c = CHR 0x0D \<or> c = CHR 0x20)"

definition spaceEncodings :: "string list" where
  "spaceEncodings =
     [[CHR 0xC2, CHR 0x85], [CHR 0xC2, CHR 0xA0],
      [CHR 0xE1, CHR 0x9A, CHR 0x80],
      [CHR 0xE2, CHR 0x80, CHR 0x80], [CHR 0xE2, CHR 0x80, CHR 0x81],
      [CHR 0xE2, CHR 0x80, CHR 0x82], [CHR 0xE2, CHR 0x80, CHR 0x83],
      [CHR 0xE2, CHR 0x80, CHR 0x84], [CHR 0xE2, CHR 0x80, CHR 0x85],
      [CHR 0xE2, CHR 0x80, CHR 0x86], [CHR 0xE2, CHR 0x80, CHR 0x87],
      [CHR 0xE2, CHR 0x80, CHR 0x88], [CHR 0xE2, CHR 0x80, CHR 0x89],
      [CHR 0xE2, CHR 0x80, CHR 0x8A],
      [CHR 0xE2, CHR 0x80, CHR 0xA8], [CHR 0xE2, CHR 0x80, CHR 0xA9],
      [CHR 0xE2, CHR 0x80, CHR 0xAF],
      [CHR 0xE2, CHR 0x81, CHR 0x9F],
      [CHR 0xE3, CHR 0x80, CHR 0x80]]"

text \<open>The width in bytes of the white-space rune the string starts with; 0 when it
  starts with none.\<close>

definition leadingSpace :: "string \<Rightarrow> nat" where
  "leadingSpace s =
     (case s of
        [] \<Rightarrow> 0
      | c # _ \<Rightarrow>
          if asciiSpace c then 1
          else if take 2 s \<in> set spaceEncodings then 2
          else if take 3 s \<in> set spaceEncodings then 3
          else 0)"

text \<open>The width in bytes of the white-space rune the string ends with; 0 when it ends
  with none.\<close>

definition trailingSpace :: "string \<Rightarrow> nat" where
  "trailingSpace s =
     (if s = [] then 0
      else if asciiSpace (last s) then 1
      else if 2 \<le> length s \<and> drop (length s - 2) s \<in> set spaceEncodings then 2
      else if 3 \<le> length s \<and> drop (length s - 3) s \<in> set spaceEncodings then 3
      else 0)"

lemma leadingSpace_Nil: "leadingSpace [] = 0"
  by (simp add: leadingSpace_def)

lemma trailingSpace_pos: "0 < trailingSpace s \<Longrightarrow> s \<noteq> []"
  by (auto simp: trailingSpace_def)

text \<open>\<open>strings.TrimSpace\<close>: \<open>TrimLeftFunc\<close> then \<open>TrimRightFunc\<close> with
  \<open>unicode.IsSpace\<close>.\<close>

function TrimLeftSpace :: "string \<Rightarrow> string" where
  "TrimLeftSpace s =
     (if leadingSpace s = 0 then s else TrimLeftSpace (drop (leadingSpace s) s))"
  by pat_completeness auto
termination
proof (relation "measure length")
  show "wf (measure length)" by simp
next
  fix s :: string
  assume "leadingSpace s \<noteq> 0"
  then have "s \<noteq> []" using leadingSpace_Nil by auto
  with \<open>leadingSpace s \<noteq> 0\<close> show "(drop (leadingSpace s) s, s) \<in> measure length"
    by simp
qed

function TrimRightSpace :: "string \<Rightarrow> string" where
  "TrimRightSpace s =
     (if trailingSpace s = 0 then s
      else TrimRightSpace (take (length s - trailingSpace s) s))"
  by pat_completeness auto
termination
proof (relation "measure length")
  show "wf (measure length)" by simp
next
  fix s :: string
  assume "trailingSpace s \<noteq> 0"
  then have "s \<noteq> []" using trailingSpace_pos by auto
  with \<open>trailingSpace s \<noteq> 0\<close>
  show "(take (length s - trailingSpace s) s, s) \<in> measure length"
    by simp
qed

declare TrimLeftSpace.simps [simp del] TrimRightSpace.simps [simp del]

definition TrimSpace :: "string \<Rightarrow> string" where
  "TrimSpace s = TrimRightSpace (TrimLeftSpace s)"

text \<open>\<open>strings.Fields\<close>: the maximal runs of bytes between white-space runes. The first
  argument is the field being read.\<close>

function FieldsFrom :: "string \<Rightarrow> string \<Rightarrow> string list" where
  "FieldsFrom cur s =
     (if s = [] then (if cur = [] then [] else [cur])
      else if leadingSpace s = 0 then FieldsFrom (cur @ [hd s]) (tl s)
      else (if cur = [] then [] else [cur]) @ FieldsFrom [] (drop (leadingSpace s) s))"
  by pat_completeness auto
termination
proof (relation "measure (\<lambda>(cur, s). length s)")
  show "wf (measure (\<lambda>(cur, s). length s))" by simp
next
  fix cur s :: string
  assume "s \<noteq> []"
  then show "((cur @ [hd s], tl s), (cur, s)) \<in> measure (\<lambda>(cur, s). length s)"
    by simp
next
  fix cur s :: string
  assume "s \<noteq> []" "leadingSpace s \<noteq> 0"
  then show "(([], drop (leadingSpace s) s), (cur, s)) \<in> measure (\<lambda>(cur, s). length s)"
    by simp
qed

declare FieldsFrom.simps [simp del]

definition Fields :: "string \<Rightarrow> string list" where
  "Fields s = FieldsFrom [] s"

subsection \<open>Splitting, joining, suffixes, decimal numerals\<close>

text \<open>\<open>strings.Split(s, sep)\<close> for a separator of one byte, the only use in the two
  files (\<open>"\n"\<close>, \<open>"\t"\<close> and \<open>" "\<close>). The result is never empty: a string without the
  separator gives the one-element slice holding the string itself.\<close>

fun Split :: "string \<Rightarrow> char \<Rightarrow> string list" where
  "Split [] sep = [[]]"
| "Split (c # s) sep =
     (if c = sep then [] # Split s sep
      else (c # hd (Split s sep)) # tl (Split s sep))"

text \<open>\<open>strings.Join(elems, sep)\<close>.\<close>

fun Join :: "string list \<Rightarrow> string \<Rightarrow> string" where
  "Join [] sep = []"
| "Join [a] sep = a"
| "Join (a # b # r) sep = a @ sep @ Join (b # r) sep"

text \<open>\<open>strings.HasSuffix\<close>:
  \<open>len(s) >= len(suffix) && s[len(s)-len(suffix):] == suffix\<close>.\<close>

definition HasSuffix :: "string \<Rightarrow> string \<Rightarrow> bool" where
  "HasSuffix s suffix =
     (length suffix \<le> length s \<and> drop (length s - length suffix) s = suffix)"

text \<open>\<open>strconv.Itoa\<close>: the decimal numeral of an integer.\<close>

definition digit :: "nat \<Rightarrow> char" where
  "digit d = char_of (48 + d)"

function digits :: "nat \<Rightarrow> string" where
  "digits n = (if n < 10 then [digit n] else digits (n div 10) @ [digit (n mod 10)])"
  by pat_completeness auto
termination
  by (relation "measure id") auto

declare digits.simps [simp del]

definition Itoa :: "int \<Rightarrow> string" where
  "Itoa i = (if i < 0 then CHR ''-'' # digits (nat (- i)) else digits (nat i))"

subsection \<open>Errors\<close>

text \<open>An error value is either one made by a library (\<open>errors.New\<close>, an
  \<open>*exec.ExitError\<close>, a \<open>*url.Error\<close>), held here by its message, or one wrapped by
  \<open>errors.Wrap\<close> or \<open>errors.Wrapf\<close> of \<open>github.com/pkg/errors\<close> with a message in
  front of its cause. A Go \<open>error\<close> that may be \<open>nil\<close> is an \<open>error option\<close>.\<close>

datatype error = New string | Wrap error string

text \<open>A function that may panic either returns a value or panics; the panic of these
  files is the run-time error of a slice expression whose bounds are out of range.\<close>

datatype 'a outcome = Returns 'a | Panics

section \<open>pkg/util/commands.go\<close>

subsection \<open>What lies outside the program\<close>

text \<open>
  One start of the external program is an \<open>execution\<close>: the bytes the process writes
  to its standard output and standard error, in the order written, and the error of
  \<open>Cmd.Run\<close> (\<open>None\<close> for exit status 0; an error when the program cannot be started
  or exits with another status). It is a parameter of every function that starts the
  program. The value \<open>os.Setenv\<close> gives \<open>PATH\<close> before a run only decides which program
  is found, and the line \<open>log.Infoln\<close> prints in verbose mode goes to the log; neither
  is part of the values modelled here.
\<close>

record execution =
  written :: string
  failure :: "error option"

text \<open>\<open>exec.Cmd\<close> with the fields \<open>run\<close> sets. \<open>Stdout\<close> and \<open>Stderr\<close> are
  \<open>io.Writer\<close>s, \<open>nil\<close> unless set; \<open>ioutil.Discard\<close> is the only writer this file
  stores there.\<close>

datatype writer = Discard

record Cmd =
  cmdPath :: string
  cmdArgs :: "string list"
  cmdDir :: string
  Stdout :: "writer option"
  Stderr :: "writer option"

definition exec_Command :: "string \<Rightarrow> string list \<Rightarrow> Cmd" where
  "exec_Command name arg =
     \<lparr>cmdPath = name, cmdArgs = name # arg, cmdDir = [], Stdout = None, Stderr = None\<rparr>"

text \<open>
  \<open>Cmd.CombinedOutput\<close> of \<open>os/exec\<close>:
  \<^verbatim>\<open>
  if c.Stdout != nil { return nil, errors.New("exec: Stdout already set") }
  if c.Stderr != nil { return nil, errors.New("exec: Stderr already set") }
  var b bytes.Buffer
  c.Stdout = &b
  c.Stderr = &b
  err := c.Run()
  return b.Bytes(), err
  \<close>
  The program is started only when neither writer was set before.
\<close>

definition CombinedOutput :: "Cmd \<Rightarrow> execution \<Rightarrow> string \<times> error option" where
  "CombinedOutput c ex =
     (if Stdout c \<noteq> None then ([], Some (New ''exec: Stdout already set''))
      else if Stderr c \<noteq> None then ([], Some (New ''exec: Stderr already set''))
      else (written ex, failure ex))"

text \<open>\<open>time.Duration\<close> counts nanoseconds.\<close>

type_synonym Duration = int

definition Second :: Duration where
  "Second = 1000000000"

definition Minute :: Duration where
  "Minute = 60 * Second"

text \<open>
  \<open>backoff.ExponentialBackOff\<close> of \<open>github.com/cenkalti/backoff\<close>, with the three
  durations of its policy. Its randomisation factor and its multiplier are floating-point
  numbers that only set how long the loop sleeps between two attempts; they and the
  clock are left out. \<open>NewExponentialBackOff\<close> fills in the library's defaults.
\<close>

record ExponentialBackOff =
  InitialInterval :: Duration
  MaxInterval :: Duration
  MaxElapsedTime :: Duration

definition NewExponentialBackOff :: ExponentialBackOff where
  "NewExponentialBackOff =
     \<lparr>InitialInterval = 500 * 1000000, MaxInterval = 60 * Second,
      MaxElapsedTime = 15 * Minute\<rparr>"

text \<open>
  \<open>NextBackOff\<close> answers \<open>Stop\<close> when
  \<open>b.MaxElapsedTime != 0 && b.GetElapsedTime() > b.MaxElapsedTime\<close>, and otherwise the
  next delay. The elapsed time it reads from the clock is a parameter.
\<close>

definition NextBackOff_Stop :: "ExponentialBackOff \<Rightarrow> Duration \<Rightarrow> bool" where
  "NextBackOff_Stop b elapsed = (MaxElapsedTime b \<noteq> 0 \<and> elapsed > MaxElapsedTime b)"

subsection \<open>Command\<close>

text \<open>The counter \<open>attempts\<close> is a Go \<open>int\<close>, 64 bits wide on the platforms the tool is
  built for; \<open>attempts++\<close> wraps around.\<close>

record Command =
  attempts :: "64 word"
  Errors :: "error list"
  Dir :: string
  Name :: string
  Args :: "string list"
  ExponentialBackOff :: "ExponentialBackOff option"
  Timeout :: Duration
  Verbose :: bool
  Quiet :: bool

definition Attempts :: "Command \<Rightarrow> 64 word" where
  "Attempts c = attempts c"

definition DidError :: "Command \<Rightarrow> bool" where
  "DidError c = (if length (Errors c) > 0 then True else False)"

definition DidFail :: "Command \<Rightarrow> bool" where
  "DidFail c = (if word_of_nat (length (Errors c)) = attempts c then True else False)"

definition Error :: "Command \<Rightarrow> error option" where
  "Error c = (if length (Errors c) > 0 then Some (Errors c ! (length (Errors c) - 1)) else None)"

definition IsVerbose :: "Command \<Rightarrow> bool" where
  "IsVerbose c = Verbose c"

definition IsQuiet :: "Command \<Rightarrow> bool" where
  "IsQuiet c = (if IsVerbose c then False else if Quiet c then True else False)"

text \<open>The message \<open>run\<close> wraps a failure with:
  \<open>failed to run '%s %s' command in directory '%s', output: '%s'\<close>.\<close>

definition run_message :: "Command \<Rightarrow> string \<Rightarrow> string" where
  "run_message c text =
     ''failed to run '' @ [CHR 0x27] @ Name c @ '' '' @ Join (Args c) '' '' @ [CHR 0x27]
     @ '' command in directory '' @ [CHR 0x27] @ Dir c @ [CHR 0x27]
     @ '', output: '' @ [CHR 0x27] @ text @ [CHR 0x27]"

definition run :: "Command \<Rightarrow> execution \<Rightarrow> string \<times> error option" where
  "run c ex =
     (let e = exec_Command (Name c) (Args c);
          e = (if Dir c \<noteq> [] then e\<lparr>cmdDir := Dir c\<rparr> else e);
          e = (if IsQuiet c then e\<lparr>Stdout := Some Discard, Stderr := Some Discard\<rparr> else e);
          (data, err) = CombinedOutput e ex;
          output = data;
          text = TrimSpace output
      in case err of
           Some er \<Rightarrow> (text, Some (Wrap er (run_message c text)))
         | None \<Rightarrow> (text, None))"

definition RunWithoutRetry :: "Command \<Rightarrow> execution \<Rightarrow> (string \<times> error option) \<times> Command" where
  "RunWithoutRetry c ex =
     (let (r, e) = run c ex;
          c = c\<lparr>attempts := attempts c + 1\<rparr>;
          c = (case e of Some er \<Rightarrow> c\<lparr>Errors := Errors c @ [er]\<rparr> | None \<Rightarrow> c)
      in ((r, e), c))"

text \<open>The closure \<open>f\<close> of \<open>Run\<close>: one attempt. It leaves its results in the variables
  \<open>r\<close> and \<open>e\<close> of \<open>Run\<close>, returned here with the command.\<close>

definition Run_f :: "Command \<Rightarrow> execution \<Rightarrow> (string \<times> error option) \<times> Command" where
  "Run_f c ex =
     (let (r, e) = run c ex;
          c = c\<lparr>attempts := attempts c + 1\<rparr>
      in case e of
           Some er \<Rightarrow> ((r, e), c\<lparr>Errors := Errors c @ [er]\<rparr>)
         | None \<Rightarrow> ((r, e), c))"

text \<open>
  \<open>backoff.Retry(f, b)\<close>:
  \<^verbatim>\<open>
  for {
      if err = operation(); err == nil { return nil }
      if next = b.NextBackOff(); next == Stop { return err }
      time.Sleep(next)
  }
  \<close>
  The loop is driven by the list of what each attempt meets: the execution of the
  program, and the elapsed time \<open>NextBackOff\<close> reads after it. The loop may run without
  end; when it wants one more attempt than the list holds, the value is \<open>None\<close>.
\<close>

fun Retry_f :: "ExponentialBackOff \<Rightarrow> Command \<Rightarrow> (execution \<times> Duration) list
    \<Rightarrow> ((string \<times> error option) \<times> Command) option" where
  "Retry_f b c [] = None"
| "Retry_f b c ((ex, elapsed) # rest) =
     (let (re, c') = Run_f c ex
      in case snd re of
           None \<Rightarrow> Some (re, c')
         | Some err \<Rightarrow>
             if NextBackOff_Stop b elapsed then Some (re, c')
             else Retry_f b c' rest)"

definition Run :: "Command \<Rightarrow> (execution \<times> Duration) list
    \<Rightarrow> ((string \<times> error option) \<times> Command) option" where
  "Run c trace =
     (let c = c\<lparr>ExponentialBackOff := Some NewExponentialBackOff\<rparr>;
          c = (if Timeout c = 0 then c\<lparr>Timeout := 3 * Minute\<rparr> else c);
          b = NewExponentialBackOff\<lparr>MaxElapsedTime := Timeout c\<rparr>;
          c = c\<lparr>ExponentialBackOff := Some b\<rparr>
      in case Retry_f b c trace of
           None \<Rightarrow> None
         | Some ((r, e), c') \<Rightarrow>
             (case e of
                Some err \<Rightarrow> Some (([], Some err), c')
              | None \<Rightarrow> Some ((r, None), c')))"

section \<open>pkg/helm/helm_cli.go\<close>

text \<open>The type \<open>Version\<close> of the field \<open>BinVersion\<close> is declared elsewhere in the
  package; it is a type parameter here. \<open>Runner\<close> points to the command the client
  owns, which is taken to be there (not \<open>nil\<close>), as \<open>NewHelmCLI\<close> leaves it.\<close>

record 'v HelmCLI =
  Binary :: string
  BinVersion :: 'v
  CWD :: string
  Runner :: Command

definition NewHelmCLI :: "string \<Rightarrow> 'v \<Rightarrow> string \<Rightarrow> string list \<Rightarrow> 'v HelmCLI" where
  "NewHelmCLI binary version cwd args =
     (let a = concat (map (\<lambda>x. Split x CHR '' '') args);
          runner = \<lparr>attempts = 0, Errors = [], Dir = cwd, Name = binary, Args = a,
                    ExponentialBackOff = None, Timeout = 0, Verbose = False, Quiet = False\<rparr>
      in \<lparr>Binary = binary, BinVersion = version, CWD = cwd, Runner = runner\<rparr>)"

definition runHelm :: "'v HelmCLI \<Rightarrow> string list \<Rightarrow> execution \<Rightarrow> error option \<times> 'v HelmCLI" where
  "runHelm h args ex =
     (let r = (Runner h)\<lparr>Name := Binary h, Dir := CWD h, Args := args\<rparr>;
          (res, r') = RunWithoutRetry r ex
      in (snd res, h\<lparr>Runner := r'\<rparr>))"

definition runHelmWithOutput :: "'v HelmCLI \<Rightarrow> string list \<Rightarrow> execution
    \<Rightarrow> (string \<times> error option) \<times> 'v HelmCLI" where
  "runHelmWithOutput h args ex =
     (let r = (Runner h)\<lparr>Dir := CWD h, Name := Binary h, Args := args\<rparr>;
          (res, r') = RunWithoutRetry r ex
      in (res, h\<lparr>Runner := r'\<rparr>))"

subsection \<open>ListRepos\<close>

text \<open>The body of the loop of \<open>ListRepos\<close>, for one line and the map so far.\<close>

definition ListRepos_line :: "string \<Rightarrow> (string \<rightharpoonup> string) \<Rightarrow> (string \<rightharpoonup> string)" where
  "ListRepos_line line repos =
     (let line = TrimSpace line;
          fields = Fields line
      in if length fields > 1 then repos(fields ! 0 \<mapsto> fields ! 1)
         else if length fields > 0 then repos(fields ! 0 \<mapsto> [])
         else repos)"

text \<open>\<open>lines[2:]\<close> panics when \<open>lines\<close> has fewer than two elements.\<close>

definition ListRepos :: "'v HelmCLI \<Rightarrow> execution
    \<Rightarrow> (error + (string \<rightharpoonup> string)) outcome \<times> 'v HelmCLI" where
  "ListRepos h ex =
     (let ((output, err), h') = runHelmWithOutput h [''repo'', ''list''] ex
      in case err of
           Some e \<Rightarrow> (Returns (Inl (Wrap e ''failed to list repositories'')), h')
         | None \<Rightarrow>
             (let repos = Map.empty;
                  lines = Split output CHR 0x0A
              in if length lines < 2 then (Panics, h')
                 else (Returns (Inr (fold ListRepos_line (drop 2 lines) repos)), h')))"

subsection \<open>IsRepoMissing\<close>

text \<open>
  \<open>url.URL\<close> with the fields the examples show; \<open>IsRepoMissing\<close> reads \<open>Host\<close> only.
  \<open>url.Parse\<close> of \<open>net/url\<close> is a parameter of the model. So is the order in which
  \<open>range\<close> visits the keys of the map, which Go leaves open: the model visits the keys
  of the list \<open>order\<close> that the map holds, and \<open>enumerates\<close> says that the list names
  every key once.
\<close>

record URL =
  Scheme :: string
  Host :: string
  Path :: string

definition enumerates :: "'k list \<Rightarrow> ('k \<rightharpoonup> 'v) \<Rightarrow> bool" where
  "enumerates order m = (distinct order \<and> set order = dom m)"

text \<open>The loop over the URLs of the map, in the order visited.\<close>

fun IsRepoMissing_loop :: "(string \<Rightarrow> error + URL) \<Rightarrow> URL \<Rightarrow> string list \<Rightarrow> bool \<times> error option" where
  "IsRepoMissing_loop Parse searchedURL [] = (True, None)"
| "IsRepoMissing_loop Parse searchedURL (repoURL # rest) =
     (if length repoURL > 0 then
        (case Parse repoURL of
           Inl err \<Rightarrow> (True, Some (Wrap err ''failed to parse the repo URL''))
         | Inr url \<Rightarrow>
             if Host url = Host searchedURL then (False, None)
             else IsRepoMissing_loop Parse searchedURL rest)
      else IsRepoMissing_loop Parse searchedURL rest)"

definition IsRepoMissing :: "(string \<Rightarrow> error + URL) \<Rightarrow> string list \<Rightarrow> 'v HelmCLI \<Rightarrow> string
    \<Rightarrow> execution \<Rightarrow> (bool \<times> error option) outcome \<times> 'v HelmCLI" where
  "IsRepoMissing Parse order h URL ex =
     (case ListRepos h ex of
        (Panics, h') \<Rightarrow> (Panics, h')
      | (Returns (Inl err), h') \<Rightarrow>
          (Returns (True, Some (Wrap err ''failed to list the repositories'')), h')
      | (Returns (Inr repos), h') \<Rightarrow>
          (case Parse URL of
             Inl err \<Rightarrow> (Returns (True, Some (Wrap err ''provided repo URL is invalid'')), h')
           | Inr searchedURL \<Rightarrow>
               (Returns (IsRepoMissing_loop Parse searchedURL (List.map_filter repos order)), h')))"

subsection \<open>UpgradeChart\<close>

text \<open>The optional \<open>*string\<close> and \<open>*int\<close> arguments are options; the result is the
  error of the run and the client, whose runner holds the arguments it was started
  with.\<close>

definition UpgradeChart_args :: "string \<Rightarrow> string \<Rightarrow> string \<Rightarrow> string option \<Rightarrow> bool
    \<Rightarrow> int option \<Rightarrow> bool \<Rightarrow> bool \<Rightarrow> string list \<Rightarrow> string list \<Rightarrow> string list" where
  "UpgradeChart_args chart releaseName ns version install timeout force wait values valueFiles =
     (let args = [];
          args = args @ [''upgrade''];
          args = args @ [''--namespace'', ns];
          args = (if install then args @ [''--install''] else args);
          args = (if wait then args @ [''--wait''] else args);
          args = (if force then args @ [''--force''] else args);
          args = (case timeout of Some t \<Rightarrow> args @ [''--timeout'', Itoa t] | None \<Rightarrow> args);
          args = (case version of Some v \<Rightarrow> args @ [''--version'', v] | None \<Rightarrow> args);
          args = fold (\<lambda>value args. args @ [''--set'', value]) values args;
          args = fold (\<lambda>valueFile args. args @ [''--values'', valueFile]) valueFiles args;
          args = args @ [releaseName, chart]
      in args)"

definition UpgradeChart :: "'v HelmCLI \<Rightarrow> string \<Rightarrow> string \<Rightarrow> string \<Rightarrow> string option \<Rightarrow> bool
    \<Rightarrow> int option \<Rightarrow> bool \<Rightarrow> bool \<Rightarrow> string list \<Rightarrow> string list \<Rightarrow> execution
    \<Rightarrow> error option \<times> 'v HelmCLI" where
  "UpgradeChart h chart releaseName ns version install timeout force wait values valueFiles ex =
     runHelm h
       (UpgradeChart_args chart releaseName ns version install timeout force wait values valueFiles)
       ex"

subsection \<open>SearchChartVersions\<close>

definition SearchChartVersions_line :: "string \<Rightarrow> string list \<Rightarrow> string list" where
  "SearchChartVersions_line line versions =
     (let fields = Fields line
      in if length fields > 1 then
           (let v = fields ! 1 in if v \<noteq> [] then versions @ [v] else versions)
         else versions)"

definition SearchChartVersions :: "'v HelmCLI \<Rightarrow> string \<Rightarrow> execution
    \<Rightarrow> (error + string list) outcome \<times> 'v HelmCLI" where
  "SearchChartVersions h chart ex =
     (let ((output, err), h') = runHelmWithOutput h [''search'', chart, ''--versions''] ex
      in case err of
           Some e \<Rightarrow>
             (Returns (Inl (Wrap e (''failed to search chart '' @ [CHR 0x27] @ chart @ [CHR 0x27]))), h')
         | None \<Rightarrow>
             (let versions = [];
                  lines = Split output CHR 0x0A
              in if length lines < 2 then (Panics, h')
                 else (Returns (Inr (fold SearchChartVersions_line (drop 2 lines) versions)), h')))"

subsection \<open>FindChart\<close>

text \<open>
  \<open>util.FileExists\<close> (of this repository, in a file not at hand), \<open>filepath.Glob\<close> and
  \<open>filepath.Join\<close> read the file system or clean a path; they are parameters.
  \<open>FileExists\<close> answers whether the file is there, or an error when it cannot tell;
  \<open>Glob\<close> lists the matches of a pattern, relative to the directory the process runs in.
\<close>

fun FindChart_first :: "string list \<Rightarrow> string option" where
  "FindChart_first [] = None"
| "FindChart_first (file # files) =
     (if \<not> HasSuffix file ''/preview/Chart.yaml'' then Some file else FindChart_first files)"

definition FindChart :: "(string \<Rightarrow> error + bool) \<Rightarrow> (string \<Rightarrow> error + string list)
    \<Rightarrow> (string \<Rightarrow> string \<Rightarrow> string) \<Rightarrow> 'v HelmCLI \<Rightarrow> error + string" where
  "FindChart FileExists Glob filepath_Join h =
     (let dir = CWD h;
          chartFile = filepath_Join dir ''Chart.yaml''
      in case FileExists chartFile of
           Inl err \<Rightarrow>
             Inl (Wrap err (''no Chart.yaml file found in directory '' @ [CHR 0x27] @ dir @ [CHR 0x27]))
         | Inr exists \<Rightarrow>
             if \<not> exists then
               (case Glob ''*/Chart.yaml'' of
                  Inl err \<Rightarrow> Inl (Wrap err ''no Chart.yaml file found'')
                | Inr files \<Rightarrow>
                    if length files > 0 then Inr (files ! 0)
                    else
                      (case Glob ''*/*/Chart.yaml'' of
                         Inl err \<Rightarrow> Inl (Wrap err ''no Chart.yaml file found'')
                       | Inr files \<Rightarrow>
                           (case FindChart_first files of
                              Some file \<Rightarrow> Inr file
                            | None \<Rightarrow> Inr chartFile)))
             else Inr chartFile)"

subsection \<open>StatusReleases\<close>

definition ListCharts :: "'v HelmCLI \<Rightarrow> execution \<Rightarrow> (string \<times> error option) \<times> 'v HelmCLI" where
  "ListCharts h ex = runHelmWithOutput h [''list''] ex"

definition StatusReleases_line :: "string \<Rightarrow> (string \<rightharpoonup> string) \<Rightarrow> (string \<rightharpoonup> string)" where
  "StatusReleases_line line statusMap =
     (let fields = Split line CHR 0x09
      in if length fields > 3 then
           (let release = TrimSpace (fields ! 0);
                status = TrimSpace (fields ! 3)
            in statusMap(release \<mapsto> status))
         else statusMap)"

definition StatusReleases :: "'v HelmCLI \<Rightarrow> execution
    \<Rightarrow> (error + (string \<rightharpoonup> string)) outcome \<times> 'v HelmCLI" where
  "StatusReleases h ex =
     (let ((output, err), h') = ListCharts h ex
      in case err of
           Some e \<Rightarrow> (Returns (Inl (Wrap e ''failed to list the installed chart releases'')), h')
         | None \<Rightarrow>
             (let lines = Split output CHR 0x0A;
                  statusMap = Map.empty
              in if length lines < 2 then (Panics, h')
                 else (Returns (Inr (fold StatusReleases_line (drop 2 lines) statusMap)), h')))"

section \<open>Sequences of calls on one command\<close>

text \<open>
  A command is used through \<open>RunWithoutRetry\<close> and \<open>Run\<close>. A call of \<open>Run\<close> comes with
  the list that drives its retry loop. \<open>do_calls\<close> makes the calls of a list one after
  the other on the same command and returns the error of each call with the command at
  the end; it is \<open>None\<close> when a retry loop wants more attempts than its list holds.
  A call of \<open>Run\<close> returns an error only when every attempt it made failed, and no error
  only when its last attempt succeeded, so the errors of the calls tell whether any
  attempt succeeded. \<open>call_budget\<close> bounds the attempts a call can make.
\<close>

datatype call = CallRunWithoutRetry execution | CallRun "(execution \<times> Duration) list"

fun do_call :: "Command \<Rightarrow> call \<Rightarrow> ((string \<times> error option) \<times> Command) option" where
  "do_call c (CallRunWithoutRetry ex) = Some (RunWithoutRetry c ex)"
| "do_call c (CallRun trace) = Run c trace"

fun do_calls :: "Command \<Rightarrow> call list \<Rightarrow> (error option list \<times> Command) option" where
  "do_calls c [] = Some ([], c)"
| "do_calls c (x # xs) =
     (case do_call c x of
        None \<Rightarrow> None
      | Some (re, c') \<Rightarrow>
          (case do_calls c' xs of
             None \<Rightarrow> None
           | Some (es, c'') \<Rightarrow> Some (snd re # es, c'')))"

fun call_budget :: "call \<Rightarrow> nat" where
  "call_budget (CallRunWithoutRetry ex) = 1"
| "call_budget (CallRun trace) = length trace"

definition successes :: "error option list \<Rightarrow> nat" where
  "successes es = length (filter (\<lambda>e. e = None) es)"

section \<open>Inputs of the examples\<close>

definition sample_command :: Command where
  "sample_command = Runner (NewHelmCLI ''helm'' () ''/work'' [''--debug''])"

definition failed_execution :: execution where
  "failed_execution = \<lparr>written = ''Error: no tiller'' @ [CHR 0x0A], failure = Some (New ''exit status 1'')\<rparr>"

definition good_execution :: execution where
  "good_execution = \<lparr>written = ''v2.9.1'' @ [CHR 0x0A], failure = None\<rparr>"

definition failing_calls :: "call list" where
  "failing_calls = [CallRunWithoutRetry failed_execution, CallRun [(failed_execution, Second), (failed_execution, 4 * Minute)]]"

definition mixed_calls :: "call list" where
  "mixed_calls = [CallRunWithoutRetry failed_execution, CallRun [(failed_execution, Second), (good_execution, 2 * Second)]]"

definition quiet_command :: Command where
  "quiet_command = sample_command\<lparr>Args := [''version''], Quiet := True\<rparr>"

definition empty_execution :: execution where
  "empty_execution = \<lparr>written = [], failure = None\<rparr>"

definition sample_client :: "unit HelmCLI" where
  "sample_client = NewHelmCLI ''helm'' () ''/work'' []"

definition retry_then_success :: "(execution \<times> Duration) list" where
  "retry_then_success = [(failed_execution, Second), (good_execution, 2 * Second)]"

definition retry_exhausted :: "(execution \<times> Duration) list" where
  "retry_exhausted = [(failed_execution, Second), (failed_execution, 4 * Minute)]"

section \<open>Properties of pkg/util/commands.go\<close>

subsection \<open>Attempts and errors\<close>

lemma Run_f_RunWithoutRetry: "Run_f c ex = RunWithoutRetry c ex"
  by (simp add: Run_f_def RunWithoutRetry_def Let_def split: prod.splits option.splits)

lemma RunWithoutRetry_counts:
  assumes "RunWithoutRetry c ex = (re, c')"
  shows "attempts c' = attempts c + 1"
    and "length (Errors c') + (if snd re = None then 1 else 0) = length (Errors c) + 1"
proof -
  obtain r e where run: "run c ex = (r, e)" by (cases "run c ex")
  from assms show "attempts c' = attempts c + 1"
    by (cases e) (auto simp: RunWithoutRetry_def run)
  from assms
  show "length (Errors c') + (if snd re = None then 1 else 0) = length (Errors c) + 1"
    by (cases e) (auto simp: RunWithoutRetry_def run)
qed

lemma Retry_f_counts:
  "Retry_f b c tr = Some (re, c') \<Longrightarrow>
     \<exists>n. 1 \<le> n \<and> n \<le> length tr \<and> attempts c' = attempts c + word_of_nat n
        \<and> length (Errors c') + (if snd re = None then 1 else 0) = length (Errors c) + n"
proof (induction tr arbitrary: c)
  case Nil
  then show ?case by simp
next
  case (Cons a tr)
  obtain ex elapsed where a: "a = (ex, elapsed)" by (cases a)
  obtain r1 c1 where step: "RunWithoutRetry c ex = (r1, c1)" by (cases "RunWithoutRetry c ex")
  note cnt = RunWithoutRetry_counts [OF step]
  show ?case
  proof (cases "snd r1 = None \<or> NextBackOff_Stop b elapsed")
    case True
    with Cons.prems a step have "re = r1" "c' = c1"
      by (auto simp: Run_f_RunWithoutRetry split: option.splits)
    with cnt show ?thesis by (intro exI [of _ 1]) auto
  next
    case False
    with Cons.prems a step have rest: "Retry_f b c1 tr = Some (re, c')"
      by (auto simp: Run_f_RunWithoutRetry split: option.splits)
    from Cons.IH [OF rest] obtain n where n: "1 \<le> n" "n \<le> length tr"
      "attempts c' = attempts c1 + word_of_nat n"
      "length (Errors c') + (if snd re = None then 1 else 0) = length (Errors c1) + n"
      by blast
    from False have "snd r1 \<noteq> None" by simp
    with cnt n show ?thesis
      by (intro exI [of _ "Suc n"]) (auto simp: add.assoc)
  qed
qed

lemma Run_counts:
  assumes "Run c tr = Some (re, c')"
  shows "\<exists>n. 1 \<le> n \<and> n \<le> length tr \<and> attempts c' = attempts c + word_of_nat n
        \<and> length (Errors c') + (if snd re = None then 1 else 0) = length (Errors c) + n"
proof -
  define c1 where "c1 = (if Timeout c = 0 then c\<lparr>ExponentialBackOff := Some NewExponentialBackOff, Timeout := 3 * Minute\<rparr>
                         else c\<lparr>ExponentialBackOff := Some NewExponentialBackOff\<rparr>)"
  define b where "b = NewExponentialBackOff\<lparr>MaxElapsedTime := Timeout c1\<rparr>"
  define c2 where "c2 = c1\<lparr>ExponentialBackOff := Some b\<rparr>"
  have same: "attempts c2 = attempts c" "Errors c2 = Errors c"
    by (simp_all add: c2_def c1_def)
  from assms obtain r e where ret: "Retry_f b c2 tr = Some ((r, e), c')"
    and re: "snd re = e"
    by (auto simp: Run_def Let_def b_def c2_def c1_def split: option.splits prod.splits if_splits)
  from Retry_f_counts [OF ret] re same show ?thesis by simp
qed

lemma do_calls_counts:
  "do_calls c cs = Some (es, c') \<Longrightarrow>
     \<exists>n. length cs \<le> n \<and> n \<le> sum_list (map call_budget cs)
        \<and> attempts c' = attempts c + word_of_nat n
        \<and> length (Errors c') + successes es = length (Errors c) + n"
proof (induction cs arbitrary: c es)
  case Nil
  then show ?case by (auto simp: successes_def)
next
  case (Cons x cs)
  from Cons.prems obtain re c1 es1 where
    one: "do_call c x = Some (re, c1)" and
    rest: "do_calls c1 cs = Some (es1, c')" and
    es: "es = snd re # es1"
    by (auto split: option.splits prod.splits)
  have "\<exists>m. 1 \<le> m \<and> m \<le> call_budget x \<and> attempts c1 = attempts c + word_of_nat m
        \<and> length (Errors c1) + (if snd re = None then 1 else 0) = length (Errors c) + m"
  proof (cases x)
    case (CallRunWithoutRetry ex)
    with one have "RunWithoutRetry c ex = (re, c1)" by simp
    from RunWithoutRetry_counts [OF this] CallRunWithoutRetry show ?thesis
      by (intro exI [of _ 1]) simp
  next
    case (CallRun tr)
    with one have "Run c tr = Some (re, c1)" by simp
    from Run_counts [OF this] CallRun show ?thesis by simp
  qed
  then obtain m where m: "1 \<le> m" "m \<le> call_budget x"
    "attempts c1 = attempts c + word_of_nat m"
    "length (Errors c1) + (if snd re = None then 1 else 0) = length (Errors c) + m"
    by blast
  from Cons.IH [OF rest] obtain n where n: "length cs \<le> n"
    "n \<le> sum_list (map call_budget cs)"
    "attempts c' = attempts c1 + word_of_nat n"
    "length (Errors c') + successes es1 = length (Errors c1) + n"
    by blast
  have succ: "successes es = (if snd re = None then 1 else 0) + successes es1"
    by (simp add: es successes_def)
  from m n succ show ?case
    by (intro exI [of _ "m + n"]) (auto simp: add.assoc)
qed

lemma word_of_nat_eq_63:
  assumes "k \<le> n" "n < 2 ^ 63"
  shows "((word_of_nat k :: 64 word) = word_of_nat n) = (k = n)"
proof -
  have n64: "n < 2 ^ 64" using assms(2) by simp
  then have k64: "k < 2 ^ 64" using assms(1) by simp
  show "((word_of_nat k :: 64 word) = word_of_nat n) = (k = n)"
    using k64 n64 by (simp add: word_of_nat_eq_iff take_bit_nat_eq_self)
qed

lemma sint_word_of_nat_63:
  assumes "n < 2 ^ 63"
  shows "sint (word_of_nat n :: 64 word) = int n"
proof -
  have "int n < int (2 ^ 63)" using assms by (simp only: of_nat_less_iff)
  then have "int n < 2 ^ 63" by simp
  then show ?thesis by (simp add: signed_of_nat signed_take_bit_int_eq_self)
qed

text \<open>
  C10. On a command that has never been run, with no attempt counted and an empty list
  of errors, as \<open>NewHelmCLI\<close> builds it, \<open>DidFail\<close> is true and \<open>DidError\<close> is false:
  the number of errors, zero, equals the number of attempts, zero.
\<close>

theorem fresh_Command_DidFail_not_DidError:
  "attempts c = 0 \<Longrightarrow> Errors c = [] \<Longrightarrow> DidFail c \<and> \<not> DidError c"
  by (simp add: DidFail_def DidError_def)

theorem fresh_Command_DidFail_not_DidError_witness:
  "attempts sample_command = 0 \<and> Errors sample_command = []
   \<and> DidFail sample_command \<and> \<not> DidError sample_command"
proof -
  have fresh: "attempts sample_command = 0" "Errors sample_command = []"
    by (simp_all add: sample_command_def NewHelmCLI_def)
  from fresh_Command_DidFail_not_DidError [OF fresh] fresh show ?thesis by simp
qed

text \<open>
  C6. For every command, \<open>DidError\<close> holds exactly when the list of errors is not empty
  and \<open>DidFail\<close> holds exactly when the number of errors equals the attempt counter.
  Starting from a command that has never been run, after a sequence of at least one
  call in which every attempt failed both \<open>DidFail\<close> and \<open>DidError\<close> hold; after a
  sequence in which some attempt succeeded \<open>DidFail\<close> does not hold and the attempt
  counter is greater than the number of errors. The sequences are those of fewer than
  \<open>2 ^ 63\<close> attempts, which the 64-bit counter counts without wrapping around.
\<close>

theorem DidFail_DidError_calls:
  "(DidError c \<longleftrightarrow> Errors c \<noteq> []) \<and>
   (DidFail c \<longleftrightarrow> word_of_nat (length (Errors c)) = attempts c) \<and>
   (attempts c = 0 \<and> Errors c = [] \<and> do_calls c cs = Some (es, c')
      \<and> sum_list (map call_budget cs) < 2 ^ 63 \<longrightarrow>
      (cs \<noteq> [] \<and> (\<forall>e \<in> set es. e \<noteq> None) \<longrightarrow> DidFail c' \<and> DidError c') \<and>
      ((\<exists>e \<in> set es. e = None) \<longrightarrow>
         \<not> DidFail c' \<and> int (length (Errors c')) < sint (attempts c')))"
proof (intro conjI impI)
  show "DidError c \<longleftrightarrow> Errors c \<noteq> []" by (simp add: DidError_def)
  show "DidFail c \<longleftrightarrow> word_of_nat (length (Errors c)) = attempts c" by (simp add: DidFail_def)
next
  assume h: "attempts c = 0 \<and> Errors c = [] \<and> do_calls c cs = Some (es, c')
      \<and> sum_list (map call_budget cs) < 2 ^ 63"
  from h have calls: "do_calls c cs = Some (es, c')" by simp
  from do_calls_counts [OF calls] obtain n where
    raw: "length cs \<le> n" "n \<le> sum_list (map call_budget cs)"
         "attempts c' = attempts c + word_of_nat n"
         "length (Errors c') + successes es = length (Errors c) + n"
    by blast
  from raw h have n: "length cs \<le> n" "n < 2 ^ 63" "attempts c' = word_of_nat n"
       "length (Errors c') + successes es = n"
    by simp_all
  have le: "length (Errors c') \<le> n" using n(4) by simp
  have fail_iff: "DidFail c' \<longleftrightarrow> successes es = 0"
    using word_of_nat_eq_63 [OF le n(2)] n(3,4) by (auto simp: DidFail_def)
  have succ0: "successes es = 0 \<longleftrightarrow> (\<forall>e \<in> set es. e \<noteq> None)"
    by (auto simp: successes_def filter_empty_conv)
  {
    assume a: "cs \<noteq> [] \<and> (\<forall>e \<in> set es. e \<noteq> None)"
    then have "0 < length cs" by simp
    then have "0 < n" using n(1) by (rule less_le_trans)
    moreover from a succ0 have z: "successes es = 0" by simp
    ultimately have "0 < length (Errors c')" using n(4) by simp
    with z fail_iff show "DidFail c'" "DidError c'" by (simp_all add: DidError_def)
  }
  {
    assume a: "\<exists>e \<in> set es. e = None"
    with succ0 have pos: "0 < successes es" by auto
    with fail_iff show "\<not> DidFail c'" by simp
    from pos n(4) have "length (Errors c') < n" by simp
    then show "int (length (Errors c')) < sint (attempts c')"
      using sint_word_of_nat_63 [OF n(2)] n(3) by simp
  }
qed

theorem DidFail_DidError_calls_witness:
  "attempts sample_command = 0 \<and> Errors sample_command = []
   \<and> do_calls sample_command failing_calls \<noteq> None
   \<and> DidFail (snd (the (do_calls sample_command failing_calls)))
   \<and> DidError (snd (the (do_calls sample_command failing_calls)))
   \<and> do_calls sample_command mixed_calls \<noteq> None
   \<and> \<not> DidFail (snd (the (do_calls sample_command mixed_calls)))"
proof -
  have fresh: "attempts sample_command = 0" "Errors sample_command = []"
    by (simp_all add: sample_command_def NewHelmCLI_def)
  have f1: "do_calls sample_command failing_calls \<noteq> None" by code_simp
  have f2: "\<forall>e \<in> set (fst (the (do_calls sample_command failing_calls))). e \<noteq> None"
    by code_simp
  have f3: "sum_list (map call_budget failing_calls) < 2 ^ 63" "failing_calls \<noteq> []"
    by (simp_all add: failing_calls_def)
  have m1: "do_calls sample_command mixed_calls \<noteq> None" by code_simp
  have m2: "\<exists>e \<in> set (fst (the (do_calls sample_command mixed_calls))). e = None"
    by code_simp
  have m3: "sum_list (map call_budget mixed_calls) < 2 ^ 63"
    by (simp add: mixed_calls_def)
  from f1 have f1': "do_calls sample_command failing_calls =
      Some (fst (the (do_calls sample_command failing_calls)), snd (the (do_calls sample_command failing_calls)))"
    by auto
  from m1 have m1': "do_calls sample_command mixed_calls =
      Some (fst (the (do_calls sample_command mixed_calls)), snd (the (do_calls sample_command mixed_calls)))"
    by auto
  show ?thesis
    using DidFail_DidError_calls [where c = sample_command and cs = failing_calls
        and es = "fst (the (do_calls sample_command failing_calls))"
        and c' = "snd (the (do_calls sample_command failing_calls))"]
      DidFail_DidError_calls [where c = sample_command and cs = mixed_calls
        and es = "fst (the (do_calls sample_command mixed_calls))"
        and c' = "snd (the (do_calls sample_command mixed_calls))"]
      fresh f1 f1' f2 f3 m1 m1' m2 m3
    by blast
qed

subsection \<open>One execution\<close>

text \<open>A run returns no error exactly when the command is not quiet and the program
  exits with status 0; it then returns the trimmed output.\<close>

lemma run_success_iff: "snd (run c ex) = None \<longleftrightarrow> \<not> IsQuiet c \<and> failure ex = None"
  by (auto simp: run_def CombinedOutput_def exec_Command_def Let_def split: option.splits)

lemma run_success: "\<not> IsQuiet c \<Longrightarrow> failure ex = None \<Longrightarrow> run c ex = (TrimSpace (written ex), None)"
  by (auto simp: run_def CombinedOutput_def exec_Command_def Let_def split: option.splits)

lemma run_quiet:
  "IsQuiet c \<Longrightarrow> run c ex = (TrimSpace [], Some (Wrap (New ''exec: Stdout already set'') (run_message c (TrimSpace []))))"
  by (auto simp: run_def CombinedOutput_def exec_Command_def Let_def split: option.splits)

lemma TrimSpace_Nil: "TrimSpace [] = []"
  by code_simp
lemma RunWithoutRetry_config:
  "Args (snd (RunWithoutRetry c ex)) = Args c"
  "Name (snd (RunWithoutRetry c ex)) = Name c"
  "Dir (snd (RunWithoutRetry c ex)) = Dir c"
  by (simp_all add: RunWithoutRetry_def Let_def split: prod.splits option.splits)

text \<open>
  C9. A command in quiet mode stores \<open>ioutil.Discard\<close> in \<open>Stdout\<close> and \<open>Stderr\<close>
  before it calls \<open>CombinedOutput\<close>, which refuses a command whose \<open>Stdout\<close> is set.
  For a program that would print \<open>v2.9.1\<close> and exit with status 0, the quiet run
  returns the empty text and the error \<open>exec: Stdout already set\<close>, counts a failed
  attempt, and never starts the program; the same command without \<open>Quiet\<close> returns
  the trimmed output and no error.
\<close>

theorem quiet_run_never_starts_program:
  "IsQuiet quiet_command \<and> failure good_execution = None
   \<and> RunWithoutRetry quiet_command good_execution =
       (([], Some (Wrap (New ''exec: Stdout already set'') (run_message quiet_command []))),
        quiet_command\<lparr>attempts := 1,
          Errors := [Wrap (New ''exec: Stdout already set'') (run_message quiet_command [])]\<rparr>)
   \<and> RunWithoutRetry (quiet_command\<lparr>Quiet := False\<rparr>) good_execution =
       ((''v2.9.1'', None), quiet_command\<lparr>Quiet := False, attempts := 1\<rparr>)"
  by code_simp

section \<open>Properties of pkg/helm/helm_cli.go\<close>

subsection \<open>Running the client\<close>

lemma runHelm_Args: "Args (Runner (snd (runHelm h args ex))) = args"
proof -
  obtain res r' where r: "RunWithoutRetry ((Runner h)\<lparr>Name := Binary h, Dir := CWD h, Args := args\<rparr>) ex = (res, r')"
    by (cases "RunWithoutRetry ((Runner h)\<lparr>Name := Binary h, Dir := CWD h, Args := args\<rparr>) ex")
  from RunWithoutRetry_config(1) [of "(Runner h)\<lparr>Name := Binary h, Dir := CWD h, Args := args\<rparr>" ex] r
  show ?thesis by (simp add: runHelm_def)
qed
lemma runHelmWithOutput_success:
  assumes "\<not> IsQuiet (Runner h)" "failure ex = None"
  shows "fst (runHelmWithOutput h args ex) = (TrimSpace (written ex), None)"
proof -
  let ?r = "(Runner h)\<lparr>Dir := CWD h, Name := Binary h, Args := args\<rparr>"
  have "\<not> IsQuiet ?r" using assms(1)
    by (auto simp: IsQuiet_def IsVerbose_def split: if_splits)
  from run_success [OF this assms(2)] show ?thesis
    by (simp add: runHelmWithOutput_def RunWithoutRetry_def Let_def split: prod.splits)
qed

lemma runHelmWithOutput_success_ex:
  assumes "\<not> IsQuiet (Runner h)" "failure ex = None"
  shows "\<exists>h'. runHelmWithOutput h args ex = ((TrimSpace (written ex), None), h')"
  using runHelmWithOutput_success [OF assms, of args]
  by (cases "runHelmWithOutput h args ex") simp

subsection \<open>UpgradeChart\<close>

lemma fold_append_pairs:
  "fold (\<lambda>v a. a @ [k, v]) vs args = args @ concat (map (\<lambda>v. [k, v]) vs)"
  by (induction vs arbitrary: args) simp_all

text \<open>
  C8. For all inputs, the arguments \<open>UpgradeChart\<close> starts the program with are, in
  this order: \<open>upgrade\<close>, \<open>--namespace\<close> and the namespace; \<open>--install\<close> if
  \<open>install\<close>; \<open>--wait\<close> if \<open>wait\<close>; \<open>--force\<close> if \<open>force\<close>; \<open>--timeout\<close> and the
  decimal numeral of the timeout if it is given; \<open>--version\<close> and the version if it is
  given; \<open>--set\<close> and the value, for each value in input order; \<open>--values\<close> and the
  file, for each value file in input order; and last the release name and the chart.
\<close>

theorem UpgradeChart_argument_order:
  "Args (Runner (snd (UpgradeChart h chart releaseName ns version install timeout force wait
       values valueFiles ex))) =
     [''upgrade'', ''--namespace'', ns]
     @ (if install then [''--install''] else [])
     @ (if wait then [''--wait''] else [])
     @ (if force then [''--force''] else [])
     @ (case timeout of None \<Rightarrow> [] | Some n \<Rightarrow> [''--timeout'', Itoa n])
     @ (case version of None \<Rightarrow> [] | Some v \<Rightarrow> [''--version'', v])
     @ concat (map (\<lambda>value. [''--set'', value]) values)
     @ concat (map (\<lambda>valueFile. [''--values'', valueFile]) valueFiles)
     @ [releaseName, chart]"
  by (simp add: UpgradeChart_def runHelm_Args UpgradeChart_args_def fold_append_pairs
      split: option.splits)

lemma UpgradeChart_example:
  "Args (Runner (snd (UpgradeChart sample_client ''stable/nginx'' ''web'' ''prod'' (Some ''1.2.0'') True
       (Some 300) False True [''a=1'', ''b=2''] [''values.yaml''] good_execution))) =
   [''upgrade'', ''--namespace'', ''prod'', ''--install'', ''--wait'', ''--timeout'', ''300'',
    ''--version'', ''1.2.0'', ''--set'', ''a=1'', ''--set'', ''b=2'', ''--values'', ''values.yaml'',
    ''web'', ''stable/nginx'']"
  by code_simp

subsection \<open>Outputs of fewer than two lines\<close>

text \<open>
  C5. When the invocation succeeds and its trimmed output splits at line feeds into
  fewer than two lines, \<open>lines[2:]\<close> is out of range: \<open>ListRepos\<close>,
  \<open>SearchChartVersions\<close> and \<open>StatusReleases\<close> panic; none returns a result or an
  error. The empty output, which splits into one empty line, is such an output.
\<close>

theorem short_output_panics:
  assumes "\<not> IsQuiet (Runner h)" "failure ex = None"
      and "length (Split (TrimSpace (written ex)) CHR 0x0A) < 2"
  shows "fst (ListRepos h ex) = Panics \<and> fst (SearchChartVersions h chart ex) = Panics
         \<and> fst (StatusReleases h ex) = Panics"
proof (intro conjI)
  note ok = runHelmWithOutput_success_ex [OF assms(1,2)]
  from ok obtain h1 where
    "runHelmWithOutput h [''repo'', ''list''] ex = ((TrimSpace (written ex), None), h1)"
    by blast
  with assms(3) show "fst (ListRepos h ex) = Panics"
    by (simp add: ListRepos_def)
  from ok obtain h2 where
    "runHelmWithOutput h [''search'', chart, ''--versions''] ex = ((TrimSpace (written ex), None), h2)"
    by blast
  with assms(3) show "fst (SearchChartVersions h chart ex) = Panics"
    by (simp add: SearchChartVersions_def)
  from ok obtain h3 where
    "runHelmWithOutput h [''list''] ex = ((TrimSpace (written ex), None), h3)"
    by blast
  with assms(3) show "fst (StatusReleases h ex) = Panics"
    by (simp add: StatusReleases_def ListCharts_def)
qed

theorem short_output_panics_witness:
  "\<not> IsQuiet (Runner sample_client) \<and> failure empty_execution = None
   \<and> Split (TrimSpace (written empty_execution)) CHR 0x0A = [[]]
   \<and> fst (ListRepos sample_client empty_execution) = Panics
   \<and> fst (SearchChartVersions sample_client ''nginx'' empty_execution) = Panics
   \<and> fst (StatusReleases sample_client empty_execution) = Panics"
proof -
  have a: "\<not> IsQuiet (Runner sample_client)" by code_simp
  have b: "failure empty_execution = None" by (simp add: empty_execution_def)
  have c: "Split (TrimSpace (written empty_execution)) CHR 0x0A = [[]]" by code_simp
  then have d: "length (Split (TrimSpace (written empty_execution)) CHR 0x0A) < 2" by simp
  from short_output_panics [OF a b d, of "''nginx''"] a b c show ?thesis by simp
qed

section \<open>The retry loop of Run\<close>

text \<open>An attempt changes the counter and the list of errors of the command only, so
  every attempt of a loop runs the same invocation.\<close>

lemma run_cong:
  "Name c = Name d \<Longrightarrow> Args c = Args d \<Longrightarrow> Dir c = Dir d \<Longrightarrow> Verbose c = Verbose d
     \<Longrightarrow> Quiet c = Quiet d \<Longrightarrow> run c ex = run d ex"
  by (simp add: run_def run_message_def IsQuiet_def IsVerbose_def Let_def cong: if_cong)

lemma RunWithoutRetry_flags:
  "Verbose (snd (RunWithoutRetry c ex)) = Verbose c"
  "Quiet (snd (RunWithoutRetry c ex)) = Quiet c"
  by (simp_all add: RunWithoutRetry_def Let_def split: prod.splits option.splits)

lemma RunWithoutRetry_run: "run (snd (RunWithoutRetry c ex)) ex' = run c ex'"
  by (rule run_cong) (simp_all add: RunWithoutRetry_config RunWithoutRetry_flags)

lemma RunWithoutRetry_policy:
  "Timeout (snd (RunWithoutRetry c ex)) = Timeout c"
  "ExponentialBackOff (snd (RunWithoutRetry c ex)) = ExponentialBackOff c"
  "fst (RunWithoutRetry c ex) = run c ex"
  by (simp_all add: RunWithoutRetry_def Let_def split: prod.splits option.splits)

lemma Retry_f_returns:
  assumes "n < length tr"
      and "\<forall>i<n. snd (run c (fst (tr ! i))) \<noteq> None \<and> \<not> NextBackOff_Stop b (snd (tr ! i))"
      and "snd (run c (fst (tr ! n))) = None \<or> NextBackOff_Stop b (snd (tr ! n))"
  shows "\<exists>c'. Retry_f b c tr = Some (run c (fst (tr ! n)), c')
           \<and> Timeout c' = Timeout c \<and> ExponentialBackOff c' = ExponentialBackOff c"
  using assms
proof (induction n arbitrary: c tr)
  case 0
  then obtain ex elapsed rest where tr: "tr = (ex, elapsed) # rest"
    by (cases tr) auto
  obtain re c1 where step: "RunWithoutRetry c ex = (re, c1)" by (cases "RunWithoutRetry c ex")
  with RunWithoutRetry_policy [of c ex] have c1: "re = run c ex" "Timeout c1 = Timeout c"
    "ExponentialBackOff c1 = ExponentialBackOff c"
    by simp_all
  from "0.prems"(3) tr have "snd (run c ex) = None \<or> NextBackOff_Stop b elapsed" by simp
  with tr step c1 show ?case
    by (auto simp: Run_f_RunWithoutRetry split: option.splits)
next
  case (Suc n)
  then obtain ex elapsed rest where tr: "tr = (ex, elapsed) # rest"
    by (cases tr) auto
  obtain re c1 where step: "RunWithoutRetry c ex = (re, c1)" by (cases "RunWithoutRetry c ex")
  with RunWithoutRetry_policy [of c ex] have c1: "re = run c ex" "Timeout c1 = Timeout c"
    "ExponentialBackOff c1 = ExponentialBackOff c"
    by simp_all
  have same: "run c1 ex' = run c ex'" for ex'
    using RunWithoutRetry_run [of c ex ex'] step by simp
  from Suc.prems(2) tr have first: "snd (run c ex) \<noteq> None" "\<not> NextBackOff_Stop b elapsed"
    by auto
  have len: "n < length rest" using Suc.prems(1) tr by simp
  have earlier: "\<forall>i<n. snd (run c1 (fst (rest ! i))) \<noteq> None \<and> \<not> NextBackOff_Stop b (snd (rest ! i))"
  proof (intro allI impI)
    fix i assume "i < n"
    then have "Suc i < Suc n" by simp
    with Suc.prems(2) tr show "snd (run c1 (fst (rest ! i))) \<noteq> None \<and> \<not> NextBackOff_Stop b (snd (rest ! i))"
      by (auto simp: same)
  qed
  have last: "snd (run c1 (fst (rest ! n))) = None \<or> NextBackOff_Stop b (snd (rest ! n))"
    using Suc.prems(3) tr by (simp add: same)
  from Suc.IH [OF len earlier last] obtain c' where
    c': "Retry_f b c1 rest = Some (run c1 (fst (rest ! n)), c')" "Timeout c' = Timeout c1"
        "ExponentialBackOff c' = ExponentialBackOff c1"
    by blast
  from first tr step c1 c' same show ?case
    by (auto simp: Run_f_RunWithoutRetry split: option.splits)
qed

text \<open>
  C7. \<open>Run\<close> takes 3 minutes for a timeout of zero, makes a new exponential back-off
  policy whose maximal elapsed time is the timeout, and runs the same invocation again
  after each failure while the elapsed time the policy reads is within the timeout.
  Here attempt \<open>n\<close> is the first that succeeds or that fails with the timeout
  exceeded. \<open>Run\<close> then returns: the trimmed output of attempt \<open>n\<close> and no error when
  that attempt succeeds; the error of attempt \<open>n\<close>, the last one made, when it fails.
\<close>

theorem Run_retries_until_success_or_timeout:
  assumes T: "T = (if Timeout c = 0 then 3 * Minute else Timeout c)"
      and n: "n < length trace"
      and earlier: "\<forall>i<n. snd (run c (fst (trace ! i))) \<noteq> None \<and> snd (trace ! i) \<le> T"
      and last: "snd (run c (fst (trace ! n))) = None \<or> T < snd (trace ! n)"
  shows "\<exists>c'. Run c trace =
           Some ((case snd (run c (fst (trace ! n))) of
                    None \<Rightarrow> (fst (run c (fst (trace ! n))), None)
                  | Some err \<Rightarrow> ([], Some err)), c')
           \<and> Timeout c' = T
           \<and> ExponentialBackOff c' = Some (NewExponentialBackOff\<lparr>MaxElapsedTime := T\<rparr>)"
proof -
  define b where "b = NewExponentialBackOff\<lparr>MaxElapsedTime := T\<rparr>"
  define c2 where "c2 = c\<lparr>Timeout := T, ExponentialBackOff := Some b\<rparr>"
  have T0: "T \<noteq> 0" using T by (simp add: Minute_def Second_def)
  have stop: "NextBackOff_Stop b e \<longleftrightarrow> T < e" for e
    using T0 by (simp add: NextBackOff_Stop_def b_def)
  have same: "run c2 ex = run c ex" for ex
    by (rule run_cong) (simp_all add: c2_def)
  have e2: "\<forall>i<n. snd (run c2 (fst (trace ! i))) \<noteq> None \<and> \<not> NextBackOff_Stop b (snd (trace ! i))"
    using earlier by (auto simp: same stop)
  have l2: "snd (run c2 (fst (trace ! n))) = None \<or> NextBackOff_Stop b (snd (trace ! n))"
    using last by (simp add: same stop)
  from Retry_f_returns [OF n e2 l2] obtain c' where
    raw: "Retry_f b c2 trace = Some (run c2 (fst (trace ! n)), c')" "Timeout c' = Timeout c2"
        "ExponentialBackOff c' = ExponentialBackOff c2"
    by blast
  have c': "Retry_f b c2 trace = Some (run c (fst (trace ! n)), c')" "Timeout c' = T"
        "ExponentialBackOff c' = Some b"
    using raw same by (simp_all add: c2_def)
  have unfold: "Run c trace =
      (case Retry_f b c2 trace of
         None \<Rightarrow> None
       | Some ((r, e), c') \<Rightarrow>
           (case e of Some err \<Rightarrow> Some (([], Some err), c') | None \<Rightarrow> Some ((r, None), c')))"
    using T by (simp add: Run_def Let_def b_def c2_def)
  obtain r e where re: "run c (fst (trace ! n)) = (r, e)" by (cases "run c (fst (trace ! n))")
  from unfold c' re show ?thesis
    by (cases e) (simp_all add: b_def)
qed

theorem Run_retries_until_success_or_timeout_witness:
  "Timeout sample_command = 0
   \<and> (\<exists>c'. Run sample_command retry_then_success = Some ((''v2.9.1'', None), c')
          \<and> Timeout c' = 3 * Minute
          \<and> ExponentialBackOff c' = Some (NewExponentialBackOff\<lparr>MaxElapsedTime := 3 * Minute\<rparr>))
   \<and> (\<exists>c'. Run sample_command retry_exhausted =
            Some (([], snd (run sample_command failed_execution)), c')
          \<and> snd (run sample_command failed_execution) \<noteq> None
          \<and> Timeout c' = 3 * Minute)"
proof -
  have t: "Timeout sample_command = 0" by code_simp
  then have T: "3 * Minute = (if Timeout sample_command = 0 then 3 * Minute else Timeout sample_command)"
    by simp
  have bad: "snd (run sample_command failed_execution) \<noteq> None" by code_simp
  have good: "run sample_command good_execution = (''v2.9.1'', None)" by code_simp
  have n: "1 < length retry_then_success" "1 < length retry_exhausted"
    by (simp_all add: retry_then_success_def retry_exhausted_def)
  have e1: "\<forall>i<1. snd (run sample_command (fst (retry_then_success ! i))) \<noteq> None
              \<and> snd (retry_then_success ! i) \<le> 3 * Minute"
    using bad by (simp add: retry_then_success_def Minute_def Second_def)
  have l1: "snd (run sample_command (fst (retry_then_success ! 1))) = None
              \<or> 3 * Minute < snd (retry_then_success ! 1)"
    using good by (simp add: retry_then_success_def)
  have e2: "\<forall>i<1. snd (run sample_command (fst (retry_exhausted ! i))) \<noteq> None
              \<and> snd (retry_exhausted ! i) \<le> 3 * Minute"
    using bad by (simp add: retry_exhausted_def Minute_def Second_def)
  have l2: "snd (run sample_command (fst (retry_exhausted ! 1))) = None
              \<or> 3 * Minute < snd (retry_exhausted ! 1)"
    by (simp add: retry_exhausted_def Minute_def Second_def)
  from Run_retries_until_success_or_timeout [OF T n(1) e1 l1] good
  have A: "\<exists>c'. Run sample_command retry_then_success = Some ((''v2.9.1'', None), c')
          \<and> Timeout c' = 3 * Minute
          \<and> ExponentialBackOff c' = Some (NewExponentialBackOff\<lparr>MaxElapsedTime := 3 * Minute\<rparr>)"
    by (simp add: retry_then_success_def)
  from Run_retries_until_success_or_timeout [OF T n(2) e2 l2] bad
  have B: "\<exists>c'. Run sample_command retry_exhausted =
            Some (([], snd (run sample_command failed_execution)), c')
          \<and> snd (run sample_command failed_execution) \<noteq> None
          \<and> Timeout c' = 3 * Minute"
    by (auto simp: retry_exhausted_def)
  from t A B show ?thesis by blast
qed

end
